theory Spec2Isabelle
  imports Main "HOL-Library.Sublist"
begin

section \<open>JavaScript values used by the program\<close>

text \<open>
  Strings are \<^typ>\<open>string\<close>: one \<^typ>\<open>char\<close> per code unit, in the range
  U+0000 .. U+00FF. A value that may be \<open>undefined\<close> or \<open>null\<close> is an
  \<^typ>\<open>'a option\<close>. A thrown (or rejected) value is either an instance of \<open>Error\<close>
  with its \<open>message\<close>, or some other value, of which only the \<open>message\<close>
  property matters (\<open>None\<close> when it has none).
\<close>

datatype thrown = JsError string | JsOther "string option"

text \<open>\<open>e.message\<close> of a caught value.\<close>

fun message_of :: "thrown \<Rightarrow> string option" where
  "message_of (JsError m) = Some m"
| "message_of (JsOther m) = m"

text \<open>\<open>s.startsWith(p)\<close>.\<close>

definition startsWith :: "string \<Rightarrow> string \<Rightarrow> bool" where
  "startsWith s p = (take (length p) s = p)"

text \<open>
  \<open>s.split(sep)\<close> for a one-character separator: the pieces between the separators,
  always at least one piece.
\<close>

fun split :: "char \<Rightarrow> string \<Rightarrow> string list" where
  "split sep [] = [[]]"
| "split sep (c # cs) =
     (if c = sep then [] # split sep cs
      else (case split sep cs of
              [] \<Rightarrow> [[c]]
            | w # ws \<Rightarrow> (c # w) # ws))"

text \<open>The text of \<open>s\<close> after its first \<open>sep\<close>; empty when \<open>s\<close> has none.\<close>

definition after_first :: "char \<Rightarrow> string \<Rightarrow> string" where
  "after_first sep s = drop 1 (dropWhile (\<lambda>c. c \<noteq> sep) s)"

text \<open>\<open>xs[i]\<close>: \<open>undefined\<close> out of range.\<close>

definition index :: "'a list \<Rightarrow> nat \<Rightarrow> 'a option" where
  "index xs i = (if i < length xs then Some (xs ! i) else None)"

text \<open>
  The white space and line terminator code units of ECMAScript that lie in
  U+0000 .. U+00FF: TAB, LF, VT, FF, CR, SP and NBSP.
\<close>

definition isWhiteSpace :: "char \<Rightarrow> bool" where
  "isWhiteSpace c = ((of_char c :: nat) \<in> {9, 10, 11, 12, 13, 32, 160})"

text \<open>\<open>s.trim()\<close>.\<close>

definition trim :: "string \<Rightarrow> string" where
  "trim s = rev (dropWhile isWhiteSpace (rev (dropWhile isWhiteSpace s)))"


section \<open>services/geminiService.ts\<close>

subsection \<open>The remote interface\<close>

text \<open>
  The request \<open>editImage\<close> builds, and the part of the response it reads. Every
  optional field of the response is an option. \<open>data\<close> is a string, as
  \<open>editImage\<close>'s return type \<open>Promise<string>\<close> has it.
\<close>

record Blob =
  data :: string
  blob_mimeType :: string

record Part =
  inlineData :: "Blob option"
  text_part :: "string option"

record Content =
  parts :: "Part list option"

record SafetyRating =
  blocked :: "bool option"

record Candidate =
  content :: "Content option"
  safetyRatings :: "SafetyRating list option"

record GenerateContentResponse =
  candidates :: "Candidate list option"

record GenerateContentParameters =
  model :: string
  request_data :: "string option"
  request_mimeType :: string
  request_text :: string
  responseModalities :: "string list"

text \<open>
  What lines 9 to 29 do: the client is built and the one remote call awaited. Either
  a response comes back or something is thrown.
\<close>

datatype remote_outcome = Returns GenerateContentResponse | Throws thrown

text \<open>A remote capability that does the same whatever the request.\<close>

definition responds :: "remote_outcome \<Rightarrow> GenerateContentParameters \<Rightarrow> remote_outcome" where
  [simp]: "responds out request = out"

subsection \<open>editImage\<close>

definition safety_message :: string where
  "safety_message =
     ''Image generation was blocked due to safety policies. Please try a different prompt.''"

definition no_image_message :: string where
  "no_image_message = ''No image was generated. The model did not return an image.''"

definition unknown_message :: string where
  "unknown_message = ''An unknown error occurred while generating the image.''"

definition failed_prefix :: string where
  "failed_prefix = ''Failed to generate image: ''"

text \<open>Line 31: \<open>response.candidates?.[0]\<close>.\<close>

definition first_candidate :: "GenerateContentResponse \<Rightarrow> Candidate option" where
  "first_candidate response =
     (case candidates response of
        None \<Rightarrow> None
      | Some [] \<Rightarrow> None
      | Some (c # _) \<Rightarrow> Some c)"

text \<open>Line 34: \<open>candidate?.content?.parts\<close>.\<close>

definition candidate_parts :: "Candidate option \<Rightarrow> Part list option" where
  "candidate_parts candidate =
     (case candidate of
        None \<Rightarrow> None
      | Some c \<Rightarrow> (case content c of None \<Rightarrow> None | Some ct \<Rightarrow> parts ct))"

text \<open>
  Lines 35 to 39: the loop over the parts. \<open>Some d\<close> is \<open>return d\<close>, \<open>None\<close>
  is the loop running to its end.
\<close>

fun first_inline :: "Part list \<Rightarrow> string option" where
  "first_inline [] = None"
| "first_inline (part # rest) =
     (case inlineData part of
        Some b \<Rightarrow> Some (data b)
      | None \<Rightarrow> first_inline rest)"

text \<open>Line 43: \<open>candidate?.safetyRatings?.some(rating => rating.blocked)\<close>, as a truth value.\<close>

definition some_blocked :: "Candidate option \<Rightarrow> bool" where
  "some_blocked candidate =
     (case candidate of
        None \<Rightarrow> False
      | Some c \<Rightarrow>
          (case safetyRatings c of
             None \<Rightarrow> False
           | Some ratings \<Rightarrow> list_ex (\<lambda>rating. blocked rating = Some True) ratings))"

text \<open>Lines 31 to 47, inside the \<open>try\<close>: \<open>Inr\<close> returns, \<open>Inl\<close> throws.\<close>

definition parse_response :: "GenerateContentResponse \<Rightarrow> thrown + string" where
  "parse_response response =
     (let candidate = first_candidate response in
      case (case candidate_parts candidate of
              None \<Rightarrow> None
            | Some ps \<Rightarrow> first_inline ps) of
        Some d \<Rightarrow> Inr d
      | None \<Rightarrow>
          if some_blocked candidate then Inl (JsError safety_message)
          else Inl (JsError no_image_message))"

text \<open>Lines 48 to 54: the \<open>catch\<close> block, which always throws.\<close>

fun catch_block :: "thrown \<Rightarrow> thrown" where
  "catch_block (JsError m) = JsError (failed_prefix @ m)"
| "catch_block (JsOther _) = JsError unknown_message"

text \<open>The request of lines 11 to 29.\<close>

definition edit_request :: "string option \<Rightarrow> string \<Rightarrow> string \<Rightarrow> GenerateContentParameters" where
  "edit_request base64Data mimeType prompt =
     \<lparr>model = ''gemini-2.5-flash-image'',
      request_data = base64Data,
      request_mimeType = mimeType,
      request_text = prompt,
      responseModalities = [''IMAGE'']\<rparr>"

text \<open>
  \<open>editImage\<close>, with the remote capability as its first argument. Everything thrown
  inside the \<open>try\<close>, by the remote call or by lines 44 and 47, reaches the
  \<open>catch\<close> block.
\<close>

definition editImage ::
  "(GenerateContentParameters \<Rightarrow> remote_outcome) \<Rightarrow> string option \<Rightarrow> string \<Rightarrow> string
     \<Rightarrow> thrown + string" where
  "editImage generateContent base64Data mimeType prompt =
     (case (case generateContent (edit_request base64Data mimeType prompt) of
              Throws e \<Rightarrow> Inl e
            | Returns response \<Rightarrow> parse_response response) of
        Inr d \<Rightarrow> Inr d
      | Inl error \<Rightarrow> Inl (catch_block error))"


section \<open>utils/fileUtils.ts\<close>

record File =
  name :: string
  type :: string

text \<open>
  \<open>ImageDetails\<close>. \<open>base64\<close> is declared a string, but \<open>dataUrl.split(',')[1]\<close>
  is \<open>undefined\<close> when the data URL has no comma, so the field is an option.
\<close>

record ImageDetails =
  url :: string
  base64 :: "string option"
  mimeType :: string

text \<open>
  The \<open>FileReader\<close>: after \<open>readAsDataURL\<close> either \<open>onload\<close> fires with the data
  URL in \<open>reader.result\<close>, or \<open>onerror\<close> fires with a progress event.
\<close>

datatype read_outcome = Loaded string | ReadError

text \<open>A reader that does the same whatever the file.\<close>

definition reads :: "read_outcome \<Rightarrow> File \<Rightarrow> read_outcome" where
  [simp]: "reads out f = out"

text \<open>
  \<open>processFile\<close>, with the browser's reader as its first argument. The result is how
  the promise settles (\<open>Inr\<close> resolved, \<open>Inl\<close> rejected) and the files handed to
  \<open>reader.readAsDataURL\<close>, in order. The progress event passed to \<open>reject\<close> has no
  \<open>message\<close>.
\<close>

definition processFile ::
  "(File \<Rightarrow> read_outcome) \<Rightarrow> File option \<Rightarrow> (thrown + ImageDetails) \<times> File list" where
  "processFile readAsDataURL file =
     (case file of
        None \<Rightarrow> (Inl (JsError ''Please select a valid image file.''), [])
      | Some f \<Rightarrow>
          if \<not> startsWith (type f) ''image/''
          then (Inl (JsError ''Please select a valid image file.''), [])
          else (case readAsDataURL f of
                  Loaded dataUrl \<Rightarrow>
                    (Inr \<lparr>url = dataUrl,
                          base64 = index (split CHR '','' dataUrl) 1,
                          mimeType = type f\<rparr>, [f])
                | ReadError \<Rightarrow> (Inl (JsOther None), [f])))"


section \<open>The App component\<close>

subsection \<open>State\<close>

record ImageFileState = ImageDetails +
  "file" :: File

text \<open>The \<open>{ url, mimeType }\<close> object of \<open>editedImage\<close>.\<close>

record EditedImage =
  edited_url :: string
  edited_mimeType :: string

text \<open>
  The five \<open>useState\<close> cells. \<open>None\<close> is \<open>null\<close> (for \<open>error\<close> also
  \<open>undefined\<close>, which \<open>setError(e.message)\<close> stores when the caught value has no
  message).
\<close>

record AppState =
  originalImage :: "ImageFileState option"
  editedImage :: "EditedImage option"
  prompt :: string
  isLoading :: bool
  error :: "string option"

definition initial_state :: AppState where
  "initial_state =
     \<lparr>originalImage = None, editedImage = None, prompt = [], isLoading = False, error = None\<rparr>"

subsection \<open>handleImageUpload\<close>

text \<open>Lines 60 to 62, up to the \<open>await\<close>.\<close>

definition handleImageUpload_begin :: "AppState \<Rightarrow> AppState" where
  "handleImageUpload_begin s = s\<lparr>isLoading := True, error := None, editedImage := None\<rparr>"

text \<open>
  Lines 65 to 71, after the \<open>await\<close>: applied to the state as it is when
  \<open>processFile\<close> settles.
\<close>

definition handleImageUpload_settle ::
  "File \<Rightarrow> thrown + ImageDetails \<Rightarrow> AppState \<Rightarrow> AppState" where
  "handleImageUpload_settle f outcome s =
     (case outcome of
        Inr details \<Rightarrow>
          s\<lparr>originalImage :=
               Some \<lparr>url = url details, base64 = base64 details,
                     mimeType = mimeType details, file = f\<rparr>,
            isLoading := False\<rparr>
      | Inl e \<Rightarrow> s\<lparr>error := message_of e, originalImage := None, isLoading := False\<rparr>)"

text \<open>The handler run from start to end with no other handler in between.\<close>

definition handleImageUpload :: "(File \<Rightarrow> read_outcome) \<Rightarrow> File \<Rightarrow> AppState \<Rightarrow> AppState" where
  "handleImageUpload readAsDataURL f s =
     handleImageUpload_settle f (fst (processFile readAsDataURL (Some f)))
       (handleImageUpload_begin s)"

subsection \<open>handleClear\<close>

definition handleClear :: "AppState \<Rightarrow> AppState" where
  "handleClear s =
     s\<lparr>originalImage := None, editedImage := None, prompt := [], error := None,
       isLoading := False\<rparr>"

subsection \<open>handleSubmit\<close>

text \<open>
  Lines 84 to 91, up to the \<open>await\<close>. \<open>None\<close> is the early \<open>return\<close> of line 84,
  which changes nothing. Otherwise the result is the state after line 88, the
  \<open>originalImage\<close> the handler holds, and the prompt: line 91 calls
  \<open>editImage(originalImage.base64, originalImage.mimeType, prompt)\<close> with them.
\<close>

definition handleSubmit_start :: "AppState \<Rightarrow> (AppState \<times> ImageFileState \<times> string) option" where
  "handleSubmit_start s =
     (case originalImage s of
        None \<Rightarrow> None
      | Some original \<Rightarrow>
          if trim (prompt s) = [] \<or> isLoading s then None
          else Some (s\<lparr>isLoading := True, error := None, editedImage := None\<rparr>,
                     original, prompt s))"

text \<open>
  Lines 92 to 99, after the \<open>await\<close>: applied to the state as it is when \<open>editImage\<close>
  settles, with the \<open>originalImage\<close> the handler holds.
\<close>

definition handleSubmit_settle :: "ImageFileState \<Rightarrow> thrown + string \<Rightarrow> AppState \<Rightarrow> AppState" where
  "handleSubmit_settle original outcome s =
     (case outcome of
        Inr resultBase64 \<Rightarrow>
          s\<lparr>editedImage :=
               Some \<lparr>edited_url = ''data:'' @ mimeType original @ '';base64,'' @ resultBase64,
                     edited_mimeType = mimeType original\<rparr>,
            isLoading := False\<rparr>
      | Inl e \<Rightarrow> s\<lparr>error := message_of e, isLoading := False\<rparr>)"

text \<open>
  The handler run from start to end with no other handler in between; \<open>edit\<close> is
  \<open>editImage\<close>.
\<close>

definition handleSubmit ::
  "(string option \<Rightarrow> string \<Rightarrow> string \<Rightarrow> thrown + string) \<Rightarrow> AppState \<Rightarrow> AppState" where
  "handleSubmit edit s =
     (case handleSubmit_start s of
        None \<Rightarrow> s
      | Some (s', original, p) \<Rightarrow>
          handleSubmit_settle original (edit (base64 original) (mimeType original) p) s')"

subsection \<open>getFileExtension\<close>

definition getFileExtension :: "string \<Rightarrow> string" where
  "getFileExtension m =
     (let pieces = split CHR ''/'' m in
      case index pieces (length pieces - 1) of
        None \<Rightarrow> ''png''
      | Some l \<Rightarrow> if l = [] then ''png'' else l)"

subsection \<open>What is on screen\<close>

text \<open>
  The four states of the session, as the render of lines 120 to 176 tells them apart:
  without an original image the upload area (or its spinner) is shown; with one, the
  edited pane shows the edited image if there is one, else the spinner while
  \<open>isLoading\<close>, else the placeholder text.
\<close>

datatype session = Idle | HasOriginal | Generating | HasEdited

definition session_of :: "AppState \<Rightarrow> session" where
  "session_of s =
     (case originalImage s of
        None \<Rightarrow> Idle
      | Some _ \<Rightarrow>
          (case editedImage s of
             Some _ \<Rightarrow> HasEdited
           | None \<Rightarrow> if isLoading s then Generating else HasOriginal))"


subsection \<open>The session: handlers between awaits\<close>

text \<open>
  The component runs on one thread. A handler runs until its \<open>await\<close>; what follows
  the \<open>await\<close> runs later, when the promise settles, on the state as it is then.
  In between the user may act on whatever the render offers. A session is the state
  together with the handlers that are waiting: every submission with the
  \<open>originalImage\<close> and the prompt it holds, and every upload with its file.
\<close>

record Session =
  app :: AppState
  pending_edits :: "(ImageFileState \<times> string) list"
  pending_uploads :: "File list"

definition initial_session :: Session where
  "initial_session = \<lparr>app = initial_state, pending_edits = [], pending_uploads = []\<rparr>"

text \<open>
  What can happen next. The user's actions are those of the rendered elements: the
  upload area (line 120), the two clear buttons (lines 137 and 193), the text area
  (line 201), the submit button (line 210) and the error banner's button (line 182).
  A settling names the waiting handler by its position and brings what the reader or
  the remote call did.
\<close>

datatype event =
    Upload File
  | UploadSettles nat read_outcome
  | Clear
  | TypePrompt string
  | Submit
  | EditSettles nat remote_outcome
  | DismissError

text \<open>Whether the render offers the action in a state.\<close>

fun offered :: "event \<Rightarrow> AppState \<Rightarrow> bool" where
  "offered (Upload f) s = (originalImage s = None \<and> \<not> isLoading s)"
| "offered Clear s = (originalImage s \<noteq> None)"
| "offered (TypePrompt t) s = (originalImage s \<noteq> None \<and> \<not> isLoading s)"
| "offered Submit s = (originalImage s \<noteq> None \<and> \<not> (isLoading s \<or> trim (prompt s) = []))"
| "offered DismissError s = (error s \<noteq> None \<and> error s \<noteq> Some [])"
| "offered (UploadSettles i out) s = True"
| "offered (EditSettles i out) s = True"

text \<open>\<open>xs\<close> without its element at position \<open>i\<close>.\<close>

definition remove_at :: "nat \<Rightarrow> 'a list \<Rightarrow> 'a list" where
  "remove_at i xs = take i xs @ drop (Suc i) xs"

text \<open>One event; \<open>None\<close> when it cannot happen in that session.\<close>

fun step :: "event \<Rightarrow> Session \<Rightarrow> Session option" where
  "step (Upload f) c =
     (if offered (Upload f) (app c)
      then Some (c\<lparr>app := handleImageUpload_begin (app c),
                   pending_uploads := pending_uploads c @ [f]\<rparr>)
      else None)"
| "step (UploadSettles i out) c =
     (case index (pending_uploads c) i of
        None \<Rightarrow> None
      | Some f \<Rightarrow>
          Some (c\<lparr>app := handleImageUpload_settle f (fst (processFile (reads out) (Some f))) (app c),
                   pending_uploads := remove_at i (pending_uploads c)\<rparr>))"
| "step Clear c =
     (if offered Clear (app c) then Some (c\<lparr>app := handleClear (app c)\<rparr>) else None)"
| "step (TypePrompt t) c =
     (if offered (TypePrompt t) (app c) then Some (c\<lparr>app := (app c)\<lparr>prompt := t\<rparr>\<rparr>) else None)"
| "step Submit c =
     (if offered Submit (app c)
      then (case handleSubmit_start (app c) of
              None \<Rightarrow> Some c
            | Some (s', original, p) \<Rightarrow>
                Some (c\<lparr>app := s', pending_edits := pending_edits c @ [(original, p)]\<rparr>))
      else None)"
| "step (EditSettles i out) c =
     (case index (pending_edits c) i of
        None \<Rightarrow> None
      | Some (original, p) \<Rightarrow>
          Some (c\<lparr>app := handleSubmit_settle original
                           (editImage (responds out) (base64 original) (mimeType original) p) (app c),
                   pending_edits := remove_at i (pending_edits c)\<rparr>))"
| "step DismissError c =
     (if offered DismissError (app c) then Some (c\<lparr>app := (app c)\<lparr>error := None\<rparr>\<rparr>) else None)"

fun run :: "event list \<Rightarrow> Session \<Rightarrow> Session option" where
  "run [] c = Some c"
| "run (e # es) c = (case step e c of None \<Rightarrow> None | Some c' \<Rightarrow> run es c')"

text \<open>
  An edited image is present only while an original image is.
\<close>

definition asset_invariant :: "AppState \<Rightarrow> bool" where
  "asset_invariant s = (editedImage s \<noteq> None \<longrightarrow> originalImage s \<noteq> None)"

subsection \<open>Example values\<close>

definition photo :: File where
  "photo = \<lparr>name = ''photo.png'', type = ''image/png''\<rparr>"

definition photo_url :: string where
  "photo_url = ''data:image/png;base64,QUJD''"

definition photo_asset :: ImageFileState where
  "photo_asset =
     \<lparr>url = photo_url, base64 = Some ''QUJD'', mimeType = ''image/png'', file = photo\<rparr>"

definition image_response :: "string \<Rightarrow> GenerateContentResponse" where
  "image_response d =
     \<lparr>candidates = Some
        [\<lparr>content = Some \<lparr>parts = Some
            [\<lparr>inlineData = None, text_part = Some ''Here you go''\<rparr>,
             \<lparr>inlineData = Some \<lparr>data = d, blob_mimeType = ''image/png''\<rparr>, text_part = None\<rparr>,
             \<lparr>inlineData = None, text_part = Some ''Enjoy''\<rparr>]\<rparr>,
          safetyRatings = None\<rparr>]\<rparr>"

definition blocked_response :: GenerateContentResponse where
  "blocked_response =
     \<lparr>candidates = Some
        [\<lparr>content = Some \<lparr>parts = Some [\<lparr>inlineData = None, text_part = Some ''no''\<rparr>]\<rparr>,
          safetyRatings = Some [\<lparr>blocked = None\<rparr>, \<lparr>blocked = Some True\<rparr>]\<rparr>]\<rparr>"

definition text_only_response :: GenerateContentResponse where
  "text_only_response =
     \<lparr>candidates = Some
        [\<lparr>content = Some \<lparr>parts = Some [\<lparr>inlineData = None, text_part = Some ''no''\<rparr>]\<rparr>,
          safetyRatings = Some [\<lparr>blocked = Some False\<rparr>]\<rparr>]\<rparr>"

text \<open>A response whose only candidate has no content and a blocked rating.\<close>

definition contentless_blocked_response :: GenerateContentResponse where
  "contentless_blocked_response =
     \<lparr>candidates = Some [\<lparr>content = None, safetyRatings = Some [\<lparr>blocked = Some True\<rparr>]\<rparr>]\<rparr>"

text \<open>A file whose declared type holds a comma, and the data URL its read gives.\<close>

definition comma_file :: File where
  "comma_file = \<lparr>name = ''scan.img'', type = ''image/a,b''\<rparr>"

definition comma_url :: string where
  "comma_url = ''data:image/a,b;base64,YQ==''"

text \<open>The state with \<open>photo\<close> loaded and a prompt typed.\<close>

definition has_original :: "string \<Rightarrow> AppState" where
  "has_original t =
     \<lparr>originalImage = Some photo_asset, editedImage = None, prompt = t, isLoading = False,
      error = None\<rparr>"


section \<open>Facts about the string operations\<close>

lemma split_not_Nil: "split sep s \<noteq> []"
  by (induction s) (auto split: list.splits)

lemma split_no_sep: "sep \<notin> set s \<Longrightarrow> split sep s = [s]"
  by (induction s) auto

lemma split_first: "sep \<notin> set h \<Longrightarrow> split sep (h @ sep # rest) = h # split sep rest"
  by (induction h) auto

lemma hd_split: "hd (split sep s) = takeWhile (\<lambda>c. c \<noteq> sep) s"
  using split_not_Nil [of sep]
  by (induction s) (auto split: list.splits)

lemma length_split: "length (split sep s) = Suc (length (filter (\<lambda>c. c = sep) s))"
  by (induction s) (auto split: list.splits)

lemma last_split_append: "last (split sep (a @ sep # b)) = last (split sep b)"
proof (induction a)
  case Nil
  then show ?case by (simp add: split_not_Nil)
next
  case (Cons c a)
  show ?case
  proof (cases "c = sep")
    case True
    with Cons show ?thesis by (simp add: split_not_Nil)
  next
    case False
    obtain w ws where ws: "split sep (a @ sep # b) = w # ws"
      using split_not_Nil [of sep "a @ sep # b"] by (cases "split sep (a @ sep # b)") auto
    have "length (split sep (a @ sep # b)) \<ge> 2"
      by (simp add: length_split)
    with ws have "ws \<noteq> []" by auto
    with False ws Cons show ?thesis by simp
  qed
qed

lemma index_last: "xs \<noteq> [] \<Longrightarrow> index xs (length xs - 1) = Some (last xs)"
  by (simp add: index_def last_conv_nth)

lemma startsWith_prefix: "startsWith s p \<longleftrightarrow> prefix p s"
  by (auto simp: startsWith_def prefix_def) (metis append_take_drop_id)

lemma trim_Nil_iff: "trim s = [] \<longleftrightarrow> (\<forall>c \<in> set s. isWhiteSpace c)"
proof (cases "dropWhile isWhiteSpace s")
  case Nil
  then have "\<forall>c \<in> set s. isWhiteSpace c" by simp
  moreover have "trim s = []" unfolding trim_def Nil by simp
  ultimately show ?thesis by simp
next
  case (Cons x xs)
  then have "\<not> isWhiteSpace x"
    using hd_dropWhile [of isWhiteSpace s] by simp
  moreover have "x \<in> set s"
    using Cons set_dropWhileD [of x isWhiteSpace s] by simp
  ultimately show ?thesis
    using Cons by (auto simp: trim_def)
qed

lemma index_split_1:
  "index (split sep d) 1 =
     (case dropWhile (\<lambda>c. c \<noteq> sep) d of
        [] \<Rightarrow> None
      | _ # rest \<Rightarrow> Some (takeWhile (\<lambda>c. c \<noteq> sep) rest))"
proof (cases "sep \<in> set d")
  case False
  then have dw: "dropWhile (\<lambda>c. c \<noteq> sep) d = []" by auto
  have sp: "split sep d = [d]" using False by (rule split_no_sep)
  show ?thesis unfolding sp dw by (simp add: index_def)
next
  case True
  then obtain h rest where d: "d = h @ sep # rest" and h: "sep \<notin> set h"
    by (meson split_list_first)
  from h have "dropWhile (\<lambda>c. c \<noteq> sep) (h @ sep # rest) = sep # rest"
    by (induction h) auto
  moreover have "index (split sep d) 1 = Some (hd (split sep rest))"
    using split_not_Nil [of sep rest]
    by (cases "split sep rest") (simp_all add: d split_first [OF h] index_def)
  ultimately show ?thesis by (simp add: d hd_split)
qed


section \<open>editImage: the response and the failures\<close>

lemma first_inline_None: "first_inline ps = None \<longleftrightarrow> (\<forall>q \<in> set ps. inlineData q = None)"
  by (induction ps) (auto split: option.splits)

lemma first_inline_append:
  "\<forall>q \<in> set before. inlineData q = None \<Longrightarrow> first_inline (before @ rest) = first_inline rest"
  by (induction before) auto

text \<open>What line 43 tests: some rating of the candidate has a true \<open>blocked\<close>.\<close>

lemma some_blocked_iff:
  "some_blocked candidate \<longleftrightarrow>
     (\<exists>c ratings rating. candidate = Some c \<and> safetyRatings c = Some ratings
         \<and> rating \<in> set ratings \<and> blocked rating = Some True)"
  by (auto simp: some_blocked_def list_ex_iff split: option.splits)

text \<open>
  Inside the \<open>try\<close>, a response without inline data throws the error of line 44 or
  of line 47.
\<close>

lemma parse_response_no_image:
  assumes "\<forall>ps. candidate_parts (first_candidate response) = Some ps
             \<longrightarrow> (\<forall>part \<in> set ps. inlineData part = None)"
  shows "parse_response response =
           Inl (JsError (if some_blocked (first_candidate response)
                         then safety_message else no_image_message))"
  using assms
  by (auto simp: parse_response_def Let_def first_inline_None split: option.splits)

text \<open>
  C1, as the code has it. When no part of the first candidate carries inline data,
  \<open>editImage\<close> fails with an \<open>Error\<close> whose message is
  \<open>Failed to generate image: \<close> followed by the safety message if some rating of the
  candidate is blocked, and followed by the no-image message otherwise: the errors of
  lines 44 and 47 are thrown inside the \<open>try\<close>, and the \<open>catch\<close> block wraps them
  like any other \<open>Error\<close>.
\<close>

theorem editImage_no_image:
  assumes "generateContent (edit_request b64 mime instruction) = Returns response"
    and "\<forall>ps. candidate_parts (first_candidate response) = Some ps
             \<longrightarrow> (\<forall>part \<in> set ps. inlineData part = None)"
  shows "editImage generateContent b64 mime instruction =
           Inl (JsError (''Failed to generate image: '' @
             (if some_blocked (first_candidate response)
              then ''Image generation was blocked due to safety policies. Please try a different prompt.''
              else ''No image was generated. The model did not return an image.'')))"
  using assms(1) parse_response_no_image [OF assms(2)]
  by (simp add: editImage_def failed_prefix_def safety_message_def no_image_message_def)

theorem editImage_no_image_witness:
  "candidate_parts (first_candidate blocked_response)
     = Some [\<lparr>inlineData = None, text_part = Some ''no''\<rparr>]
   \<and> some_blocked (first_candidate blocked_response)
   \<and> editImage (responds (Returns blocked_response)) (Some ''QUJD'') ''image/png'' ''add a hat'' =
       Inl (JsError ''Failed to generate image: Image generation was blocked due to safety policies. Please try a different prompt.'')
   \<and> candidate_parts (first_candidate text_only_response)
     = Some [\<lparr>inlineData = None, text_part = Some ''no''\<rparr>]
   \<and> \<not> some_blocked (first_candidate text_only_response)
   \<and> editImage (responds (Returns text_only_response)) (Some ''QUJD'') ''image/png'' ''add a hat'' =
       Inl (JsError ''Failed to generate image: No image was generated. The model did not return an image.'')"
proof -
  have parts_b: "candidate_parts (first_candidate blocked_response)
      = Some [\<lparr>inlineData = None, text_part = Some ''no''\<rparr>]"
    by (simp add: blocked_response_def first_candidate_def candidate_parts_def)
  have parts_t: "candidate_parts (first_candidate text_only_response)
      = Some [\<lparr>inlineData = None, text_part = Some ''no''\<rparr>]"
    by (simp add: text_only_response_def first_candidate_def candidate_parts_def)
  have sb: "some_blocked (first_candidate blocked_response)"
    by (simp add: blocked_response_def first_candidate_def some_blocked_def)
  have st: "\<not> some_blocked (first_candidate text_only_response)"
    by (simp add: text_only_response_def first_candidate_def some_blocked_def)
  have b: "editImage (responds (Returns blocked_response)) (Some ''QUJD'') ''image/png'' ''add a hat'' =
       Inl (JsError ''Failed to generate image: Image generation was blocked due to safety policies. Please try a different prompt.'')"
    using editImage_no_image [of "responds (Returns blocked_response)" "Some ''QUJD''" "''image/png''"
        "''add a hat''" blocked_response]
    by (simp add: parts_b sb)
  have t: "editImage (responds (Returns text_only_response)) (Some ''QUJD'') ''image/png'' ''add a hat'' =
       Inl (JsError ''Failed to generate image: No image was generated. The model did not return an image.'')"
    using editImage_no_image [of "responds (Returns text_only_response)" "Some ''QUJD''" "''image/png''"
        "''add a hat''" text_only_response]
    by (simp add: parts_t st)
  from parts_b parts_t sb st b t show ?thesis by simp
qed

text \<open>
  C1 as stated fails: for a response whose only part is text and one of whose ratings
  is blocked, the failure's message is not the safety message itself, and for one with
  no blocked rating it is not the no-image message itself.
\<close>

theorem editImage_exact_message_counterexample:
  "editImage (responds (Returns blocked_response)) (Some ''QUJD'') ''image/png'' ''add a hat''
     \<noteq> Inl (JsError ''Image generation was blocked due to safety policies. Please try a different prompt.'')
   \<and> editImage (responds (Returns text_only_response)) (Some ''QUJD'') ''image/png'' ''add a hat''
     \<noteq> Inl (JsError ''No image was generated. The model did not return an image.'')"
  by (simp add: editImage_def edit_request_def parse_response_def blocked_response_def
      text_only_response_def first_candidate_def candidate_parts_def some_blocked_def
      safety_message_def no_image_message_def failed_prefix_def)

text \<open>
  C2. When the parts of the first candidate include a part with inline data,
  \<open>editImage\<close> returns the data of the first such part, whatever the parts before it
  hold besides and whatever comes after it. In particular, with three parts of which
  the first has no inline data and the second has, the second part's data is returned
  for every first and third part.
\<close>

theorem editImage_first_inline_part:
  "(generateContent (edit_request b64 mime instruction) = Returns response
      \<and> candidate_parts (first_candidate response) = Some (before @ part # after)
      \<and> (\<forall>q \<in> set before. inlineData q = None)
      \<and> inlineData part = Some blob
    \<longrightarrow> editImage generateContent b64 mime instruction = Inr (data blob))
   \<and> (generateContent (edit_request b64 mime instruction) =
         Returns \<lparr>candidates = Some (\<lparr>content = Some \<lparr>parts = Some [part1, part2, part3]\<rparr>,
                                       safetyRatings = ratings\<rparr> # others)\<rparr>
      \<and> inlineData part1 = None \<and> inlineData part2 = Some blob
    \<longrightarrow> editImage generateContent b64 mime instruction = Inr (data blob))"
  by (auto simp: editImage_def parse_response_def first_inline_append first_candidate_def
      candidate_parts_def)

theorem editImage_first_inline_part_witness:
  "candidate_parts (first_candidate (image_response ''AAAA''))
     = Some ([\<lparr>inlineData = None, text_part = Some ''Here you go''\<rparr>]
             @ \<lparr>inlineData = Some \<lparr>data = ''AAAA'', blob_mimeType = ''image/png''\<rparr>,
                 text_part = None\<rparr>
             # [\<lparr>inlineData = None, text_part = Some ''Enjoy''\<rparr>])
   \<and> editImage (responds (Returns (image_response ''AAAA''))) (Some ''QUJD'') ''image/png''
       ''add sunglasses'' = Inr ''AAAA''"
proof -
  let ?p1 = "\<lparr>inlineData = None, text_part = Some ''Here you go''\<rparr>"
  let ?blob = "\<lparr>data = ''AAAA'', blob_mimeType = ''image/png''\<rparr>"
  let ?p2 = "\<lparr>inlineData = Some ?blob, text_part = None\<rparr>"
  let ?p3 = "\<lparr>inlineData = None, text_part = Some ''Enjoy''\<rparr>"
  have ps: "candidate_parts (first_candidate (image_response ''AAAA''))
      = Some ([?p1] @ ?p2 # [?p3])"
    by (simp add: image_response_def first_candidate_def candidate_parts_def)
  have "editImage (responds (Returns (image_response ''AAAA''))) (Some ''QUJD'') ''image/png''
       ''add sunglasses'' = Inr (data ?blob)"
    using editImage_first_inline_part [where generateContent = "responds (Returns (image_response ''AAAA''))"
        and ?b64.0 = "Some ''QUJD''" and mime = "''image/png''" and instruction = "''add sunglasses''"
        and response = "image_response ''AAAA''" and before = "[?p1]" and part = ?p2
        and after = "[?p3]" and blob = ?blob] ps
    by simp
  with ps show ?thesis
    by simp
qed

text \<open>
  C3. If the remote call throws an \<open>Error\<close> with message \<open>m\<close>, \<open>editImage\<close> fails
  with the message \<open>Failed to generate image: \<close> followed by \<open>m\<close>; if it throws a
  value that is not an \<open>Error\<close>, \<open>editImage\<close> fails with the unknown-error message;
  and every failure of \<open>editImage\<close> is an \<open>Error\<close> of one of these two forms, so
  nothing thrown leaves it unwrapped.
\<close>

theorem editImage_failure_exits:
  "(generateContent (edit_request b64 mime instruction) = Throws (JsError m)
      \<longrightarrow> editImage generateContent b64 mime instruction
            = Inl (JsError (''Failed to generate image: '' @ m)))
   \<and> (generateContent (edit_request b64 mime instruction) = Throws (JsOther v)
      \<longrightarrow> editImage generateContent b64 mime instruction
            = Inl (JsError ''An unknown error occurred while generating the image.''))
   \<and> (\<forall>e. editImage generateContent b64 mime instruction = Inl e
      \<longrightarrow> (\<exists>m'. e = JsError (''Failed to generate image: '' @ m'))
          \<or> e = JsError ''An unknown error occurred while generating the image.'')"
proof (intro conjI impI allI)
  fix e
  assume "editImage generateContent b64 mime instruction = Inl e"
  then obtain t where "e = catch_block t"
    by (auto simp: editImage_def split: sum.splits)
  then show "(\<exists>m'. e = JsError (''Failed to generate image: '' @ m'))
          \<or> e = JsError ''An unknown error occurred while generating the image.''"
    by (cases t) (simp_all add: failed_prefix_def unknown_message_def)
qed (simp_all add: editImage_def failed_prefix_def unknown_message_def)

theorem editImage_failure_exits_witness:
  "editImage (responds (Throws (JsError ''timeout''))) (Some ''QUJD'') ''image/png'' ''add sunglasses''
     = Inl (JsError ''Failed to generate image: timeout'')
   \<and> editImage (responds (Throws (JsOther (Some ''timeout'')))) (Some ''QUJD'') ''image/png''
       ''add sunglasses''
     = Inl (JsError ''An unknown error occurred while generating the image.'')
   \<and> editImage (responds (Throws (JsOther None))) (Some ''QUJD'') ''image/png'' ''add sunglasses''
     = Inl (JsError ''An unknown error occurred while generating the image.'')"
  using editImage_failure_exits [of "responds (Throws (JsError ''timeout''))" "Some ''QUJD''"
      "''image/png''" "''add sunglasses''" "''timeout''"]
    editImage_failure_exits [of "responds (Throws (JsOther (Some ''timeout'')))" "Some ''QUJD''"
      "''image/png''" "''add sunglasses''" _ "Some ''timeout''"]
    editImage_failure_exits [of "responds (Throws (JsOther None))" "Some ''QUJD''"
      "''image/png''" "''add sunglasses''" _ None]
  by simp

text \<open>
  C10, as the code has it. For every response, \<open>editImage\<close> either returns data or
  fails with one of the two errors of lines 44 and 47, wrapped by the \<open>catch\<close>
  block: no access to \<open>candidates\<close>, \<open>content\<close>, \<open>parts\<close> or
  \<open>safetyRatings\<close> throws. A response with no candidates, and a first candidate
  with no content or no parts, skip the loop and reach the test of line 43: they fail
  with the safety error when a rating of the candidate is blocked, and with the
  no-image error otherwise. A response with no candidates, and a candidate with no
  safety ratings and no inline data, fail with the no-image error.
\<close>

theorem editImage_guarded_access:
  assumes "generateContent (edit_request b64 mime instruction) = Returns response"
  shows "((\<exists>d. editImage generateContent b64 mime instruction = Inr d)
          \<or> editImage generateContent b64 mime instruction
              = Inl (JsError (''Failed to generate image: '' @ safety_message))
          \<or> editImage generateContent b64 mime instruction
              = Inl (JsError (''Failed to generate image: '' @ no_image_message)))
         \<and> ((candidates response = None \<or> candidates response = Some [])
            \<longrightarrow> parse_response response = Inl (JsError no_image_message)
                \<and> editImage generateContent b64 mime instruction
                    = Inl (JsError (''Failed to generate image: '' @ no_image_message)))
         \<and> (\<forall>c others. candidates response = Some (c # others)
                \<and> (content c = None \<or> content c = Some \<lparr>parts = None\<rparr>)
            \<longrightarrow> parse_response response =
                  Inl (JsError (if some_blocked (Some c) then safety_message
                                else no_image_message))
                \<and> editImage generateContent b64 mime instruction =
                  Inl (JsError (''Failed to generate image: '' @
                    (if some_blocked (Some c) then safety_message else no_image_message))))
         \<and> (\<forall>c others. candidates response = Some (c # others) \<and> safetyRatings c = None
                \<and> (\<forall>ps. candidate_parts (Some c) = Some ps
                       \<longrightarrow> (\<forall>part \<in> set ps. inlineData part = None))
            \<longrightarrow> parse_response response = Inl (JsError no_image_message)
                \<and> editImage generateContent b64 mime instruction
                    = Inl (JsError (''Failed to generate image: '' @ no_image_message)))"
proof -
  have wrap: "editImage generateContent b64 mime instruction
      = Inl (JsError (''Failed to generate image: '' @ m))"
    if "parse_response response = Inl (JsError m)" for m
    using assms that by (simp add: editImage_def failed_prefix_def)
  have total: "(\<exists>d. editImage generateContent b64 mime instruction = Inr d)
          \<or> editImage generateContent b64 mime instruction
              = Inl (JsError (''Failed to generate image: '' @ safety_message))
          \<or> editImage generateContent b64 mime instruction
              = Inl (JsError (''Failed to generate image: '' @ no_image_message))"
    using assms
    by (simp add: editImage_def parse_response_def Let_def failed_prefix_def
        split: option.splits)
  have empty: "parse_response response = Inl (JsError no_image_message)"
    if "candidates response = None \<or> candidates response = Some []"
    using that
    by (auto simp: parse_response_def first_candidate_def candidate_parts_def some_blocked_def)
  have contentless: "parse_response response =
      Inl (JsError (if some_blocked (Some c) then safety_message else no_image_message))"
    if "candidates response = Some (c # others)"
      and "content c = None \<or> content c = Some \<lparr>parts = None\<rparr>" for c others
    using that by (auto simp: parse_response_def first_candidate_def candidate_parts_def)
  have unrated: "parse_response response = Inl (JsError no_image_message)"
    if "candidates response = Some (c # others)" and "safetyRatings c = None"
      and "\<forall>ps. candidate_parts (Some c) = Some ps
             \<longrightarrow> (\<forall>part \<in> set ps. inlineData part = None)" for c others
    using that first_inline_None
    by (fastforce simp: parse_response_def Let_def first_candidate_def some_blocked_def
        split: option.splits)
  show ?thesis
    using total wrap [OF empty] contentless wrap [OF contentless] unrated wrap [OF unrated]
      empty
    by blast
qed

theorem editImage_guarded_access_witness:
  "editImage (responds (Returns \<lparr>candidates = None\<rparr>)) (Some ''QUJD'') ''image/png''
       ''add sunglasses''
     = Inl (JsError ''Failed to generate image: No image was generated. The model did not return an image.'')
   \<and> parse_response \<lparr>candidates = None\<rparr>
     = Inl (JsError ''No image was generated. The model did not return an image.'')
   \<and> parse_response \<lparr>candidates = Some [\<lparr>content = None, safetyRatings = None\<rparr>]\<rparr>
     = Inl (JsError ''No image was generated. The model did not return an image.'')
   \<and> some_blocked (first_candidate contentless_blocked_response)
   \<and> editImage (responds (Returns contentless_blocked_response)) (Some ''QUJD'') ''image/png''
       ''add sunglasses''
     = Inl (JsError ''Failed to generate image: Image generation was blocked due to safety policies. Please try a different prompt.'')"
proof -
  let ?g = "responds (Returns \<lparr>candidates = None\<rparr>)"
  let ?h = "responds (Returns \<lparr>candidates = Some [\<lparr>content = None, safetyRatings = None\<rparr>]\<rparr>)"
  let ?k = "responds (Returns contentless_blocked_response)"
  let ?c = "\<lparr>content = None, safetyRatings = Some [\<lparr>blocked = Some True\<rparr>]\<rparr>"
  have g: "?g (edit_request (Some ''QUJD'') ''image/png'' ''add sunglasses'')
      = Returns \<lparr>candidates = None\<rparr>"
    by simp
  have h: "?h (edit_request (Some ''QUJD'') ''image/png'' ''add sunglasses'')
      = Returns \<lparr>candidates = Some [\<lparr>content = None, safetyRatings = None\<rparr>]\<rparr>"
    by simp
  have k: "?k (edit_request (Some ''QUJD'') ''image/png'' ''add sunglasses'')
      = Returns contentless_blocked_response"
    by simp
  have sb: "some_blocked (Some ?c)"
    by (simp add: some_blocked_def)
  have cs: "candidates contentless_blocked_response = Some (?c # [])"
    by (simp add: contentless_blocked_response_def)
  have 1: "parse_response \<lparr>candidates = None\<rparr> = Inl (JsError no_image_message)"
    "editImage ?g (Some ''QUJD'') ''image/png'' ''add sunglasses''
       = Inl (JsError (''Failed to generate image: '' @ no_image_message))"
    using editImage_guarded_access [of ?g, OF g] by simp_all
  have 2: "parse_response \<lparr>candidates = Some [\<lparr>content = None, safetyRatings = None\<rparr>]\<rparr>
      = Inl (JsError no_image_message)"
    using editImage_guarded_access [of ?h, OF h] by (simp add: some_blocked_def)
  have 3: "editImage ?k (Some ''QUJD'') ''image/png'' ''add sunglasses''
       = Inl (JsError (''Failed to generate image: '' @ safety_message))"
    using editImage_guarded_access [of ?k, OF k] cs sb by simp
  have sb': "some_blocked (first_candidate contentless_blocked_response)"
    using sb by (simp add: first_candidate_def cs)
  from 1 2 3 sb' show ?thesis
    by (simp add: no_image_message_def safety_message_def)
qed

text \<open>
  C10 as stated fails: a first candidate with no content and a blocked rating does not
  reach the no-image error of line 47; line 44 throws the safety error.
\<close>

theorem editImage_degenerate_safety_counterexample:
  "first_candidate contentless_blocked_response
     = Some \<lparr>content = None, safetyRatings = Some [\<lparr>blocked = Some True\<rparr>]\<rparr>
   \<and> parse_response contentless_blocked_response
     = Inl (JsError ''Image generation was blocked due to safety policies. Please try a different prompt.'')
   \<and> parse_response contentless_blocked_response
     \<noteq> Inl (JsError ''No image was generated. The model did not return an image.'')
   \<and> editImage (responds (Returns contentless_blocked_response)) (Some ''QUJD'') ''image/png''
       ''add sunglasses''
     \<noteq> Inl (JsError ''Failed to generate image: No image was generated. The model did not return an image.'')"
  by (simp add: contentless_blocked_response_def editImage_def parse_response_def
      first_candidate_def candidate_parts_def some_blocked_def safety_message_def
      no_image_message_def failed_prefix_def)


section \<open>processFile\<close>

text \<open>
  C4. For every file whose declared type does not begin with \<open>image/\<close>,
  \<open>processFile\<close> rejects with the \<open>Error\<close> whose message is
  \<open>Please select a valid image file.\<close>, and no file is handed to the reader; a
  missing file is rejected the same way.
\<close>

theorem processFile_rejects_non_image:
  "(\<not> prefix ''image/'' (type f)
      \<longrightarrow> processFile readAsDataURL (Some f)
            = (Inl (JsError ''Please select a valid image file.''), []))
   \<and> processFile readAsDataURL None = (Inl (JsError ''Please select a valid image file.''), [])"
  by (simp add: processFile_def startsWith_prefix)

theorem processFile_rejects_non_image_witness:
  "\<not> prefix ''image/'' ''text/plain''
   \<and> processFile (reads (Loaded ''data:text/plain;base64,QUJD''))
        (Some \<lparr>name = ''notes.txt'', type = ''text/plain''\<rparr>)
       = (Inl (JsError ''Please select a valid image file.''), [])"
  using processFile_rejects_non_image [of "\<lparr>name = ''notes.txt'', type = ''text/plain''\<rparr>"
      "reads (Loaded ''data:text/plain;base64,QUJD'')"]
  by simp

text \<open>
  C5, as the code has it. For a file whose declared type \<open>t\<close> begins with
  \<open>image/\<close> and whose read gives the data URL \<open>d\<close>, \<open>processFile\<close> resolves
  with \<open>url = d\<close>, \<open>mimeType = t\<close>, and as \<open>base64\<close> the second piece of \<open>d\<close>
  split at every comma: the text between the first comma and the next comma, or the
  end of \<open>d\<close>. So \<open>base64\<close> is all of the text after the first comma when \<open>d\<close> has
  exactly one comma, the text up to the second comma when it has more, and
  \<open>undefined\<close> when it has none.
\<close>

theorem processFile_success:
  assumes "prefix ''image/'' (type f)" and "readAsDataURL f = Loaded d"
  shows "processFile readAsDataURL (Some f) =
           (Inr \<lparr>url = d,
                 base64 = (case dropWhile (\<lambda>c. c \<noteq> CHR '','') d of
                             [] \<Rightarrow> None
                           | _ # rest \<Rightarrow> Some (takeWhile (\<lambda>c. c \<noteq> CHR '','') rest)),
                 mimeType = type f\<rparr>, [f])
         \<and> (\<forall>h p. d = h @ CHR '','' # p \<and> CHR '','' \<notin> set h \<and> CHR '','' \<notin> set p
              \<longrightarrow> fst (processFile readAsDataURL (Some f))
                    = Inr \<lparr>url = d, base64 = Some p, mimeType = type f\<rparr>)
         \<and> (\<forall>h p rest. d = h @ CHR '','' # p @ CHR '','' # rest
                \<and> CHR '','' \<notin> set h \<and> CHR '','' \<notin> set p
              \<longrightarrow> fst (processFile readAsDataURL (Some f))
                    = Inr \<lparr>url = d, base64 = Some p, mimeType = type f\<rparr>)
         \<and> (CHR '','' \<notin> set d
              \<longrightarrow> fst (processFile readAsDataURL (Some f))
                    = Inr \<lparr>url = d, base64 = None, mimeType = type f\<rparr>)"
proof -
  have settled: "processFile readAsDataURL (Some f) =
      (Inr \<lparr>url = d, base64 = index (split CHR '','' d) 1, mimeType = type f\<rparr>, [f])"
    using assms by (simp add: processFile_def startsWith_prefix)
  have one: "index (split CHR '','' (h @ CHR '','' # p)) 1 = Some p"
    if "CHR '','' \<notin> set h" "CHR '','' \<notin> set p" for h p
    using that by (simp add: split_first split_no_sep index_def)
  have two: "index (split CHR '','' (h @ CHR '','' # p @ CHR '','' # rest)) 1 = Some p"
    if "CHR '','' \<notin> set h" "CHR '','' \<notin> set p" for h p rest
    using that by (simp add: split_first index_def)
  have none: "index (split CHR '','' d) 1 = None" if "CHR '','' \<notin> set d"
    using that by (simp add: split_no_sep index_def)
  show ?thesis
    using one two none by (auto simp: settled index_split_1 [symmetric])
qed

theorem processFile_success_witness:
  "prefix ''image/'' (type photo)
   \<and> processFile (reads (Loaded photo_url)) (Some photo) =
       (Inr \<lparr>url = ''data:image/png;base64,QUJD'', base64 = Some ''QUJD'',
             mimeType = ''image/png''\<rparr>, [photo])"
proof -
  have t: "prefix ''image/'' (type photo)"
    by (simp add: photo_def)
  have r: "reads (Loaded photo_url) photo = Loaded photo_url"
    by simp
  from processFile_success [of photo "reads (Loaded photo_url)" photo_url, OF t r] t
  show ?thesis
    by (simp add: photo_url_def photo_def)
qed

text \<open>
  C5 as stated fails: for the file of type \<open>image/a,b\<close> the data URL has two
  commas, the text after the first is \<open>b;base64,YQ==\<close>, and \<open>base64\<close> is
  \<open>b;base64\<close>.
\<close>

theorem processFile_first_comma_counterexample:
  "fst (processFile (reads (Loaded comma_url)) (Some comma_file))
     = Inr \<lparr>url = ''data:image/a,b;base64,YQ=='', base64 = Some ''b;base64'',
            mimeType = ''image/a,b''\<rparr>
   \<and> after_first CHR '','' comma_url = ''b;base64,YQ==''
   \<and> fst (processFile (reads (Loaded comma_url)) (Some comma_file))
     \<noteq> Inr \<lparr>url = comma_url,
            base64 = Some (after_first CHR '','' comma_url),
            mimeType = type comma_file\<rparr>"
  by (simp add: processFile_def comma_url_def comma_file_def startsWith_def index_def
      after_first_def)


section \<open>The handlers of the App component\<close>

lemma handleSubmit_start_Some:
  "handleSubmit_start s = Some (s1, original, p) \<longleftrightarrow>
     originalImage s = Some original \<and> trim (prompt s) \<noteq> [] \<and> \<not> isLoading s
     \<and> s1 = s\<lparr>isLoading := True, error := None, editedImage := None\<rparr> \<and> p = prompt s"
  by (auto simp: handleSubmit_start_def split: option.splits)

text \<open>
  C6, as the code has it. When a request settles, whatever the state is by then: on
  success with payload \<open>b\<close> the edited image becomes \<open>data:\<close>, the mime type of the
  original the submission holds, \<open>;base64,\<close> and \<open>b\<close>, with that mime type as its
  own; on failure the error's message is stored and the edited image is left as it is;
  either way the original image is left as it is. The session shows the edited image
  after a success when an original image is still present, and the original alone
  after a failure when an original image is still present and no edited image is.
  Both hold when the request settles on the state the submission left, which shows
  the spinner: then the original is the one the submission holds, and the edited
  image that the submission cleared stays cleared on failure.
\<close>

theorem handleSubmit_resolution:
  assumes "handleSubmit_start s = Some (s1, original, p)"
  shows "originalImage s = Some original
     \<and> session_of s1 = Generating
     \<and> handleSubmit edit s
         = handleSubmit_settle original (edit (base64 original) (mimeType original) p) s1
     \<and> editedImage (handleSubmit_settle original (Inr b) s1)
         = Some \<lparr>edited_url = ''data:'' @ mimeType original @ '';base64,'' @ b,
                 edited_mimeType = mimeType original\<rparr>
     \<and> originalImage (handleSubmit_settle original (Inr b) s1) = Some original
     \<and> session_of (handleSubmit_settle original (Inr b) s1) = HasEdited
     \<and> error (handleSubmit_settle original (Inl e) s1) = message_of e
     \<and> originalImage (handleSubmit_settle original (Inl e) s1) = Some original
     \<and> editedImage (handleSubmit_settle original (Inl e) s1) = None
     \<and> session_of (handleSubmit_settle original (Inl e) s1) = HasOriginal
     \<and> editedImage (handleSubmit_settle original (Inr b) later)
         = Some \<lparr>edited_url = ''data:'' @ mimeType original @ '';base64,'' @ b,
                 edited_mimeType = mimeType original\<rparr>
     \<and> originalImage (handleSubmit_settle original outcome later) = originalImage later
     \<and> \<not> isLoading (handleSubmit_settle original outcome later)
     \<and> error (handleSubmit_settle original (Inl e) later) = message_of e
     \<and> editedImage (handleSubmit_settle original (Inl e) later) = editedImage later
     \<and> (originalImage later \<noteq> None
          \<longrightarrow> session_of (handleSubmit_settle original (Inr b) later) = HasEdited)
     \<and> (originalImage later \<noteq> None \<and> editedImage later = None
          \<longrightarrow> session_of (handleSubmit_settle original (Inl e) later) = HasOriginal)"
proof -
  have run: "handleSubmit edit s
      = handleSubmit_settle original (edit (base64 original) (mimeType original) p) s1"
    using assms by (simp add: handleSubmit_def)
  from assms have left: "originalImage s = Some original"
    "s1 = s\<lparr>isLoading := True, error := None, editedImage := None\<rparr>"
    by (simp_all add: handleSubmit_start_Some)
  have any: "originalImage (handleSubmit_settle original outcome later) = originalImage later
     \<and> \<not> isLoading (handleSubmit_settle original outcome later)"
    by (cases outcome) (simp_all add: handleSubmit_settle_def)
  have shown: "(originalImage later \<noteq> None
          \<longrightarrow> session_of (handleSubmit_settle original (Inr b) later) = HasEdited)
     \<and> (originalImage later \<noteq> None \<and> editedImage later = None
          \<longrightarrow> session_of (handleSubmit_settle original (Inl e) later) = HasOriginal)"
    by (auto simp: handleSubmit_settle_def session_of_def)
  from run left any shown show ?thesis
    by (simp add: handleSubmit_settle_def session_of_def)
qed

theorem handleSubmit_resolution_witness:
  "handleSubmit_start (has_original ''add sunglasses'')
     = Some ((has_original ''add sunglasses'')\<lparr>isLoading := True\<rparr>, photo_asset, ''add sunglasses'')
   \<and> editedImage (handleSubmit_settle photo_asset (Inr ''AAAA'')
        ((has_original ''add sunglasses'')\<lparr>isLoading := True\<rparr>))
       = Some \<lparr>edited_url = ''data:image/png;base64,AAAA'', edited_mimeType = ''image/png''\<rparr>
   \<and> session_of (handleSubmit_settle photo_asset (Inr ''AAAA'')
        ((has_original ''add sunglasses'')\<lparr>isLoading := True\<rparr>)) = HasEdited
   \<and> error (handleSubmit_settle photo_asset (Inl (JsError ''Failed to generate image: timeout''))
        ((has_original ''add sunglasses'')\<lparr>isLoading := True\<rparr>))
       = Some ''Failed to generate image: timeout''
   \<and> session_of (handleSubmit_settle photo_asset (Inl (JsError ''Failed to generate image: timeout''))
        ((has_original ''add sunglasses'')\<lparr>isLoading := True\<rparr>)) = HasOriginal
   \<and> originalImage (has_original ''change the sky'') \<noteq> None
   \<and> editedImage (has_original ''change the sky'') = None
   \<and> session_of (handleSubmit_settle photo_asset (Inr ''AAAA'') (has_original ''change the sky''))
       = HasEdited
   \<and> session_of (handleSubmit_settle photo_asset (Inl (JsError ''Failed to generate image: timeout''))
        (has_original ''change the sky'')) = HasOriginal
   \<and> run [Upload photo, UploadSettles 0 (Loaded photo_url), TypePrompt ''add sunglasses'',
           Submit, EditSettles 0 (Returns (image_response ''AAAA''))] initial_session
       = Some \<lparr>app = \<lparr>originalImage = Some photo_asset,
                        editedImage = Some \<lparr>edited_url = ''data:image/png;base64,AAAA'',
                                            edited_mimeType = ''image/png''\<rparr>,
                        prompt = ''add sunglasses'', isLoading = False, error = None\<rparr>,
                pending_edits = [], pending_uploads = []\<rparr>"
proof -
  let ?s = "has_original ''add sunglasses''"
  let ?s1 = "?s\<lparr>isLoading := True\<rparr>"
  let ?later = "has_original ''change the sky''"
  have start: "handleSubmit_start ?s = Some (?s1, photo_asset, ''add sunglasses'')"
    by (simp add: handleSubmit_start_def has_original_def trim_def isWhiteSpace_def)
  have mime: "mimeType photo_asset = ''image/png''"
    by (simp add: photo_asset_def)
  have later: "originalImage ?later \<noteq> None" "editedImage ?later = None"
    by (simp_all add: has_original_def)
  have e2e: "run [Upload photo, UploadSettles 0 (Loaded photo_url), TypePrompt ''add sunglasses'',
           Submit, EditSettles 0 (Returns (image_response ''AAAA''))] initial_session
       = Some \<lparr>app = \<lparr>originalImage = Some photo_asset,
                        editedImage = Some \<lparr>edited_url = ''data:image/png;base64,AAAA'',
                                            edited_mimeType = ''image/png''\<rparr>,
                        prompt = ''add sunglasses'', isLoading = False, error = None\<rparr>,
                pending_edits = [], pending_uploads = []\<rparr>"
    by (simp add: initial_session_def initial_state_def handleImageUpload_begin_def
        handleImageUpload_settle_def processFile_def startsWith_def index_def remove_at_def
        photo_def photo_url_def photo_asset_def handleSubmit_start_def trim_def
        isWhiteSpace_def handleSubmit_settle_def editImage_def edit_request_def
        parse_response_def first_candidate_def candidate_parts_def image_response_def)
  from handleSubmit_resolution [where b = "''AAAA''"
      and e = "JsError ''Failed to generate image: timeout''" and later = ?later, OF start]
    start e2e later
  show ?thesis
    by (simp add: mime)
qed

text \<open>
  C6 as stated fails when the session is cleared while the request waits: the
  request's success then leaves an edited image and no original, and its failure
  leaves the error and no original, so the session shows the upload area in both
  cases and neither the edited image nor the original.
\<close>

theorem handleSubmit_resolution_counterexample:
  "run [Upload photo, UploadSettles 0 (Loaded photo_url), TypePrompt ''add sunglasses'',
        Submit, Clear, EditSettles 0 (Returns (image_response ''AAAA''))] initial_session
     = Some \<lparr>app = handleSubmit_settle photo_asset (Inr ''AAAA'') initial_state,
              pending_edits = [], pending_uploads = []\<rparr>
   \<and> originalImage (handleSubmit_settle photo_asset (Inr ''AAAA'') initial_state) = None
   \<and> editedImage (handleSubmit_settle photo_asset (Inr ''AAAA'') initial_state)
     = Some \<lparr>edited_url = ''data:image/png;base64,AAAA'', edited_mimeType = ''image/png''\<rparr>
   \<and> session_of (handleSubmit_settle photo_asset (Inr ''AAAA'') initial_state) = Idle
   \<and> run [Upload photo, UploadSettles 0 (Loaded photo_url), TypePrompt ''add sunglasses'',
          Submit, Clear, EditSettles 0 (Throws (JsError ''timeout''))] initial_session
     = Some \<lparr>app = \<lparr>originalImage = None, editedImage = None, prompt = [],
                      isLoading = False,
                      error = Some ''Failed to generate image: timeout''\<rparr>,
              pending_edits = [], pending_uploads = []\<rparr>
   \<and> session_of \<lparr>originalImage = None, editedImage = None, prompt = [], isLoading = False,
                  error = Some ''Failed to generate image: timeout''\<rparr> = Idle"
  by (simp add: initial_session_def initial_state_def handleImageUpload_begin_def
        handleImageUpload_settle_def processFile_def startsWith_def index_def remove_at_def
        photo_def photo_url_def photo_asset_def handleSubmit_start_def trim_def
        isWhiteSpace_def handleSubmit_settle_def editImage_def edit_request_def
        parse_response_def first_candidate_def candidate_parts_def image_response_def
        handleClear_def session_of_def failed_prefix_def)

text \<open>
  C7, as the code has it. An upload and a submission that run from start to end with
  no other handler in between keep the invariant, and so do clearing, the start of a
  submission, a submission's failure and an upload's success. A submission's success
  keeps it when an original image is still present as the request settles, and an
  upload's failure when no edited image is present as the read settles. Clearing gives
  the initial state from every state: no original, no edited image, empty prompt, no
  error.
\<close>

theorem sequencer_invariant:
  "(asset_invariant s \<longrightarrow>
        asset_invariant (handleImageUpload_settle f (Inr details) s)
      \<and> asset_invariant (handleClear s)
      \<and> asset_invariant (handleSubmit edit s)
      \<and> (\<forall>s1 original p. handleSubmit_start s = Some (s1, original, p) \<longrightarrow> asset_invariant s1)
      \<and> asset_invariant (handleSubmit_settle original (Inl e) s)
      \<and> (originalImage s \<noteq> None \<longrightarrow> asset_invariant (handleSubmit_settle original (Inr b) s))
      \<and> (editedImage s = None \<longrightarrow> asset_invariant (handleImageUpload_settle f (Inl e) s)))
   \<and> asset_invariant (handleImageUpload_begin s)
   \<and> asset_invariant (handleImageUpload readAsDataURL f s)
   \<and> handleClear s = initial_state"
proof -
  have submit: "asset_invariant (handleSubmit edit s)" if "asset_invariant s"
  proof (cases "handleSubmit_start s")
    case None
    with that show ?thesis by (simp add: handleSubmit_def)
  next
    case (Some r)
    then obtain s1 original p where r: "handleSubmit_start s = Some (s1, original, p)"
      by (cases r) auto
    then have "originalImage s1 \<noteq> None"
      by (auto simp: handleSubmit_start_Some)
    then show ?thesis
      by (auto simp: handleSubmit_def r handleSubmit_settle_def asset_invariant_def
          split: sum.splits)
  qed
  have upload: "asset_invariant (handleImageUpload readAsDataURL f s)"
    by (simp add: handleImageUpload_def handleImageUpload_settle_def
        handleImageUpload_begin_def asset_invariant_def split: sum.splits)
  have clear: "handleClear s = initial_state"
    by (simp add: handleClear_def initial_state_def)
  show ?thesis
    using submit upload clear
    by (auto simp: asset_invariant_def handleImageUpload_settle_def handleClear_def
        handleSubmit_start_Some handleSubmit_settle_def handleImageUpload_begin_def
        initial_state_def)
qed

theorem sequencer_invariant_witness:
  "asset_invariant (has_original ''add sunglasses'')
   \<and> asset_invariant (handleClear (has_original ''add sunglasses''))
   \<and> handleClear (has_original ''add sunglasses'') = initial_state
   \<and> originalImage (has_original ''add sunglasses'') \<noteq> None
   \<and> asset_invariant (handleSubmit_settle photo_asset (Inr ''AAAA'') (has_original ''add sunglasses''))
   \<and> handleSubmit_start (has_original ''add sunglasses'')
       = Some ((has_original ''add sunglasses'')\<lparr>isLoading := True\<rparr>, photo_asset, ''add sunglasses'')
   \<and> asset_invariant ((has_original ''add sunglasses'')\<lparr>isLoading := True\<rparr>)
   \<and> editedImage (has_original ''add sunglasses'') = None
   \<and> asset_invariant
        (handleImageUpload_settle photo (Inl (JsOther None)) (has_original ''add sunglasses''))"
proof -
  let ?s = "has_original ''add sunglasses''"
  have inv: "asset_invariant ?s"
    by (simp add: asset_invariant_def has_original_def)
  have orig: "originalImage ?s \<noteq> None"
    by (simp add: has_original_def)
  have none: "editedImage ?s = None"
    by (simp add: has_original_def)
  have start: "handleSubmit_start ?s = Some (?s\<lparr>isLoading := True\<rparr>, photo_asset, ''add sunglasses'')"
    by (simp add: handleSubmit_start_def has_original_def trim_def isWhiteSpace_def)
  have "asset_invariant (handleClear ?s)
      \<and> asset_invariant (handleSubmit_settle photo_asset (Inr ''AAAA'') ?s)
      \<and> handleClear ?s = initial_state
      \<and> asset_invariant (?s\<lparr>isLoading := True\<rparr>)
      \<and> asset_invariant (handleImageUpload_settle photo (Inl (JsOther None)) ?s)"
    using sequencer_invariant [where s = ?s and original = photo_asset and b = "''AAAA''"
        and f = photo and e = "JsOther None"] inv orig none start
    by blast
  with inv orig none start show ?thesis
    by blast
qed

text \<open>
  C7 as stated fails for the settling of a submission: clearing while the request
  waits leaves the initial state, which has the invariant, and the request's success
  then stores an edited image without an original.
\<close>

theorem sequencer_invariant_counterexample:
  "run [Upload photo, UploadSettles 0 (Loaded photo_url), TypePrompt ''add sunglasses'',
        Submit, Clear] initial_session
     = Some \<lparr>app = initial_state,
              pending_edits = [(photo_asset, ''add sunglasses'')], pending_uploads = []\<rparr>
   \<and> asset_invariant initial_state
   \<and> run [Upload photo, UploadSettles 0 (Loaded photo_url), TypePrompt ''add sunglasses'',
          Submit, Clear, EditSettles 0 (Returns (image_response ''AAAA''))] initial_session
     = Some \<lparr>app = \<lparr>originalImage = None,
                      editedImage = Some \<lparr>edited_url = ''data:image/png;base64,AAAA'',
                                          edited_mimeType = ''image/png''\<rparr>,
                      prompt = [], isLoading = False, error = None\<rparr>,
              pending_edits = [], pending_uploads = []\<rparr>
   \<and> \<not> asset_invariant
        (handleSubmit_settle photo_asset (Inr ''AAAA'') initial_state)"
  by (simp add: initial_session_def initial_state_def handleImageUpload_begin_def
        handleImageUpload_settle_def processFile_def startsWith_def index_def remove_at_def
        photo_def photo_url_def photo_asset_def handleSubmit_start_def trim_def
        isWhiteSpace_def handleSubmit_settle_def editImage_def edit_request_def
        parse_response_def first_candidate_def candidate_parts_def image_response_def
        handleClear_def asset_invariant_def)

text \<open>
  C8, as the code has it. When a submission calls \<open>editImage\<close>, an original image is
  present, \<open>isLoading\<close> is off, and the prompt passed is the prompt as typed, not
  trimmed, which holds a character that is not white space. The submission turns
  \<open>isLoading\<close> on, and while it is on a further submission calls nothing.
\<close>

theorem handleSubmit_start_call:
  assumes "handleSubmit_start s = Some (s1, original, p)"
  shows "originalImage s = Some original
     \<and> \<not> isLoading s
     \<and> p = prompt s
     \<and> trim p \<noteq> []
     \<and> (\<exists>c \<in> set p. \<not> isWhiteSpace c)
     \<and> isLoading s1
     \<and> handleSubmit_start s1 = None"
proof -
  from assms have *: "originalImage s = Some original" "trim (prompt s) \<noteq> []" "\<not> isLoading s"
    "s1 = s\<lparr>isLoading := True, error := None, editedImage := None\<rparr>" "p = prompt s"
    by (simp_all add: handleSubmit_start_Some)
  from *(2) have "\<exists>c \<in> set (prompt s). \<not> isWhiteSpace c"
    by (simp add: trim_Nil_iff)
  with * show ?thesis
    by (simp add: handleSubmit_start_def)
qed

theorem handleSubmit_start_call_witness:
  "handleSubmit_start (has_original '' add a hat '')
     = Some ((has_original '' add a hat '')\<lparr>isLoading := True\<rparr>, photo_asset, '' add a hat '')
   \<and> originalImage (has_original '' add a hat '') = Some photo_asset
   \<and> \<not> isLoading (has_original '' add a hat '')
   \<and> trim '' add a hat '' = ''add a hat''
   \<and> handleSubmit_start ((has_original '' add a hat '')\<lparr>isLoading := True\<rparr>) = None"
proof -
  have start: "handleSubmit_start (has_original '' add a hat '')
     = Some ((has_original '' add a hat '')\<lparr>isLoading := True\<rparr>, photo_asset, '' add a hat '')"
    by (simp add: handleSubmit_start_def has_original_def trim_def isWhiteSpace_def)
  have t: "trim '' add a hat '' = ''add a hat''"
    by (simp add: trim_def isWhiteSpace_def)
  from handleSubmit_start_call [OF start] start t show ?thesis
    by simp
qed

text \<open>
  C8 as stated fails twice. The prompt passed keeps its leading and trailing white
  space. And \<open>isLoading\<close> being off does not mean that no request waits: after a
  submission, clearing turns it off, and a second submission after a new upload calls
  \<open>editImage\<close> while the first request still waits.
\<close>

theorem handleSubmit_start_call_counterexample:
  "handleSubmit_start (has_original '' add a hat '')
     = Some ((has_original '' add a hat '')\<lparr>isLoading := True\<rparr>, photo_asset, '' add a hat '')
   \<and> '' add a hat '' \<noteq> trim '' add a hat ''
   \<and> isWhiteSpace (hd '' add a hat '') \<and> isWhiteSpace (last '' add a hat '')
   \<and> run [Upload photo, UploadSettles 0 (Loaded photo_url), TypePrompt ''add sunglasses'',
          Submit, Clear, Upload photo, UploadSettles 0 (Loaded photo_url),
          TypePrompt ''add a hat'', Submit] initial_session
     = Some \<lparr>app = \<lparr>originalImage = Some photo_asset, editedImage = None,
                      prompt = ''add a hat'', isLoading = True, error = None\<rparr>,
              pending_edits = [(photo_asset, ''add sunglasses''), (photo_asset, ''add a hat'')],
              pending_uploads = []\<rparr>"
  by (simp add: initial_session_def initial_state_def handleImageUpload_begin_def
        handleImageUpload_settle_def processFile_def startsWith_def index_def remove_at_def
        photo_def photo_url_def photo_asset_def handleSubmit_start_def trim_def
        isWhiteSpace_def handleClear_def has_original_def)

lemma getFileExtension_last:
  "getFileExtension m = (if last (split CHR ''/'' m) = [] then ''png'' else last (split CHR ''/'' m))"
  unfolding getFileExtension_def Let_def
  using index_last [OF split_not_Nil, of "CHR ''/''" m]
  by simp

text \<open>
  C9, as the code has it. The extension is the text after the last \<open>/\<close> of the mime
  type, and \<open>png\<close> when that text is empty; for a string without \<open>/\<close> it is the
  whole string, and \<open>png\<close> when the string is empty.
\<close>

theorem getFileExtension_last_segment:
  "(CHR ''/'' \<notin> set sub
      \<longrightarrow> getFileExtension (t @ CHR ''/'' # sub) = (if sub = [] then ''png'' else sub))
   \<and> (CHR ''/'' \<notin> set m \<longrightarrow> getFileExtension m = (if m = [] then ''png'' else m))"
  by (simp add: getFileExtension_last last_split_append split_no_sep)

theorem getFileExtension_last_segment_witness:
  "getFileExtension ''image/png'' = ''png''
   \<and> getFileExtension ''image/jpeg'' = ''jpeg''
   \<and> getFileExtension ''image/'' = ''png''
   \<and> getFileExtension ''application/vnd/x'' = ''x''
   \<and> getFileExtension '''' = ''png''"
  using getFileExtension_last_segment [of "''png''" "''image''" "''''"]
    getFileExtension_last_segment [of "''jpeg''" "''image''" "''''"]
    getFileExtension_last_segment [of "''''" "''image''" "''''"]
    getFileExtension_last_segment [of "''x''" "''application/vnd''" "''''"]
  by simp

text \<open>
  C9 as stated fails: \<open>image\<close> has no subtype and its extension is \<open>image\<close>, not
  \<open>png\<close>; and of \<open>image/a/b\<close>, whose text after the first \<open>/\<close> is \<open>a/b\<close>, the
  extension is \<open>b\<close>.
\<close>

theorem getFileExtension_no_subtype_counterexample:
  "CHR ''/'' \<notin> set ''image''
   \<and> getFileExtension ''image'' = ''image''
   \<and> getFileExtension ''image'' \<noteq> ''png''
   \<and> after_first CHR ''/'' ''image/a/b'' = ''a/b''
   \<and> getFileExtension ''image/a/b'' = ''b''"
  by (simp add: getFileExtension_def index_def after_first_def)

end
